theory Spec2Isabelle
  imports Complex_Main
begin

section \<open>JavaScript values\<close>

text \<open>
  The dashboard (frontend/src/App.js) renders whatever JSON the backend returns. A field of
  an alert or of a status object is a JSON scalar or an array, or is missing, which reads as
  \<open>undefined\<close>. A string is the list of its code units; a number is a rational, and
  no arithmetic on numbers is evaluated here. An object is the list of its own properties.
\<close>

datatype jsval = JUndefined | JNull | JBool bool | JNum rat | JStr string | JArr "jsval list"

type_synonym jsobj = "(string \<times> jsval) list"

text \<open>Property read \<open>obj.k\<close> on an object: a missing property reads as \<open>undefined\<close>.\<close>

definition get :: "jsobj \<Rightarrow> string \<Rightarrow> jsval" where
  "get obj k = (case map_of obj k of None \<Rightarrow> JUndefined | Some v \<Rightarrow> v)"

text \<open>ToBoolean, as applied by \<open>&&\<close>, \<open>||\<close>, \<open>!\<close> and \<open>? :\<close>.\<close>

fun truthy :: "jsval \<Rightarrow> bool" where
  "truthy JUndefined = False"
| "truthy JNull = False"
| "truthy (JBool b) = b"
| "truthy (JNum n) = (n \<noteq> 0)"
| "truthy (JStr s) = (s \<noteq> [])"
| "truthy (JArr xs) = True"

text \<open>
  What the code can throw or be rejected with: a TypeError from a property read on
  \<open>undefined\<close> or \<open>null\<close>, and a rejected axios request; each carries its message.
\<close>

datatype exn = TypeError string | RequestFailed string

type_synonym 'a resp = "exn + 'a"

text \<open>\<open>v.length\<close>: throws on \<open>undefined\<close> and \<open>null\<close>.\<close>

fun length_of :: "jsval \<Rightarrow> exn + jsval" where
  "length_of JUndefined = Inl (TypeError ''Cannot read properties of undefined (reading 'length')'')"
| "length_of JNull = Inl (TypeError ''Cannot read properties of null (reading 'length')'')"
| "length_of (JStr s) = Inr (JNum (of_nat (length s)))"
| "length_of (JArr xs) = Inr (JNum (of_nat (length xs)))"
| "length_of (JBool b) = Inr JUndefined"
| "length_of (JNum n) = Inr JUndefined"

text \<open>\<open>v?.length\<close>: optional chaining short-circuits to \<open>undefined\<close>.\<close>

definition opt_length :: "jsval \<Rightarrow> exn + jsval" where
  "opt_length v = (if v = JUndefined \<or> v = JNull then Inr JUndefined else length_of v)"

text \<open>\<open>a || b\<close>.\<close>

definition js_or :: "jsval \<Rightarrow> jsval \<Rightarrow> jsval" where
  "js_or a b = (if truthy a then a else b)"

section \<open>Rendered output\<close>

text \<open>
  A piece of rendered text or of a template literal. Formatting by the JavaScript runtime
  (number and date formatting, string conversion, the lookup in the two constant tables) is
  kept symbolic: the node records which value is formatted and how.
\<close>

datatype node =
    Lit string                \<comment> \<open>literal text\<close>
  | Val jsval                 \<comment> \<open>\<open>{v}\<close> as a React child, \<open>${v}\<close> in a template\<close>
  | Pct1 jsval                \<comment> \<open>\<open>(v * 100).toFixed(1)\<close>\<close>
  | LocaleString jsval        \<comment> \<open>\<open>new Date(v).toLocaleString()\<close>\<close>
  | LocaleTimeString jsval    \<comment> \<open>\<open>new Date(v).toLocaleTimeString()\<close>\<close>
  | ThreatColor jsval         \<comment> \<open>\<open>threatColors[v]\<close>\<close>
  | PlatformIcon jsval        \<comment> \<open>\<open>platformIcons[v]\<close>\<close>
  | Message exn               \<comment> \<open>\<open>err.message\<close>\<close>

text \<open>
  \<open>{v && (<div>...</div>)}\<close>: the section when \<open>v\<close> is truthy, otherwise the falsy
  value itself is handed to React as the child.
\<close>

datatype 'a slot = Section 'a | Falsy jsval

definition js_and :: "jsval \<Rightarrow> 'a \<Rightarrow> 'a slot" where
  "js_and v sec = (if truthy v then Section sec else Falsy v)"

subsection \<open>ThreatAlert\<close>

record alert_card =
  card_class :: "node list"
  card_icon :: node
  card_platform :: node
  card_badge_class :: "node list"
  card_badge :: node
  card_score :: "node list"
  card_author :: "node list"
  card_content :: "node list"
  card_reason :: node
  card_ai :: "node slot"
  card_time :: node
  card_href :: jsval

definition formatTime :: "jsval \<Rightarrow> node" where
  "formatTime timestamp = LocaleString timestamp"

definition ThreatAlert :: "jsobj \<Rightarrow> alert_card" where
  "ThreatAlert alert =
     \<lparr> card_class = [Lit ''border-l-4 p-4 mb-4 rounded-lg shadow-md '',
                     ThreatColor (get alert ''threat_level'')],
       card_icon = PlatformIcon (get alert ''platform''),
       card_platform = Val (get alert ''platform''),
       card_badge_class = [Lit ''px-2 py-1 rounded text-xs font-semibold uppercase '',
                           ThreatColor (get alert ''threat_level'')],
       card_badge = Val (get alert ''threat_level''),
       card_score = [Lit ''Score: '', Pct1 (get alert ''score''), Lit ''%''],
       card_author = [Lit ''@'', Val (get alert ''author'')],
       card_content = [Lit ''\"'', Val (get alert ''content''), Lit ''\"''],
       card_reason = Val (get alert ''reason''),
       card_ai = js_and (get alert ''ai_analysis'') (Val (get alert ''ai_analysis'')),
       card_time = formatTime (get alert ''timestamp''),
       card_href = get alert ''url'' \<rparr>"

subsection \<open>MonitoringStatus\<close>

datatype badge = ACTIVE | STOPPED

record status_panel =
  panel_badge :: badge
  panel_total_alerts :: node
  panel_platforms :: node
  panel_last_check :: node
  start_disabled :: bool
  stop_disabled :: bool

definition MonitoringStatus :: "jsobj \<Rightarrow> exn + status_panel" where
  "MonitoringStatus status =
     (case opt_length (get status ''platforms_monitored'') of
        Inl e \<Rightarrow> Inl e
      | Inr len \<Rightarrow>
          Inr \<lparr> panel_badge = (if truthy (get status ''is_running'') then ACTIVE else STOPPED),
                panel_total_alerts = Val (get status ''alerts_count''),
                panel_platforms = Val (js_or len (JNum 0)),
                panel_last_check =
                  (if truthy (get status ''last_check'')
                   then LocaleTimeString (get status ''last_check'')
                   else Lit ''--:--''),
                start_disabled = truthy (get status ''is_running''),
                stop_disabled = (\<not> truthy (get status ''is_running'')) \<rparr>)"

section \<open>The App component\<close>

subsection \<open>State\<close>

datatype http_method = GET | POST | DELETE

type_synonym request = "http_method \<times> string"

text \<open>\<open>API\<close> is \<open>`${BACKEND_URL}/api`\<close>; the backend URL comes from the environment.\<close>

definition API :: "string \<Rightarrow> string" where
  "API BACKEND_URL = BACKEND_URL @ ''/api''"

record notification =
  ntype :: string
  title :: string
  message :: "node list"
  details :: "node list"

text \<open>The two callbacks the component hands to \<open>setInterval\<close> and \<open>setTimeout\<close>.\<close>

datatype callback = PollTick | HideNotification

record timer =
  timer_id :: nat
  timer_ms :: nat
  repeating :: bool
  callback :: callback

text \<open>
  The five \<open>useState\<close> cells of \<open>App\<close>, and the part of the browser the component
  acts on: the HTTP requests sent so far (oldest first) and the registered timers.
\<close>

record dashboard =
  alerts :: "jsobj list"
  status :: jsobj
  loading :: bool
  error :: jsval
  notification :: "notification option"
  sent :: "request list"
  timers :: "timer list"
  next_timer :: nat

definition initial_status :: jsobj where
  "initial_status =
     [(''is_running'', JBool False), (''platforms_monitored'', JArr []),
      (''alerts_count'', JNum 0), (''last_check'', JNull)]"

definition initial :: dashboard where
  "initial =
     \<lparr> alerts = [], status = initial_status, loading = True, error = JNull,
       notification = None, sent = [], timers = [], next_timer = 0 \<rparr>"

subsection \<open>Browser primitives\<close>

definition axios :: "request \<Rightarrow> dashboard \<Rightarrow> dashboard" where
  "axios req d = d\<lparr>sent := sent d @ [req]\<rparr>"

definition add_timer :: "bool \<Rightarrow> callback \<Rightarrow> nat \<Rightarrow> dashboard \<Rightarrow> nat \<times> dashboard" where
  "add_timer rep cb ms d =
     (next_timer d,
      d\<lparr>timers := timers d @ [\<lparr>timer_id = next_timer d, timer_ms = ms, repeating = rep, callback = cb\<rparr>],
        next_timer := Suc (next_timer d)\<rparr>)"

definition setInterval :: "callback \<Rightarrow> nat \<Rightarrow> dashboard \<Rightarrow> nat \<times> dashboard" where
  "setInterval = add_timer True"

definition setTimeout :: "callback \<Rightarrow> nat \<Rightarrow> dashboard \<Rightarrow> dashboard" where
  "setTimeout cb ms d = snd (add_timer False cb ms d)"

definition clearInterval :: "nat \<Rightarrow> dashboard \<Rightarrow> dashboard" where
  "clearInterval i d = d\<lparr>timers := filter (\<lambda>t. timer_id t \<noteq> i) (timers d)\<rparr>"

subsection \<open>Fetching\<close>

text \<open>
  \<open>fetchAlerts\<close> and \<open>fetchStatus\<close> send their request and, when the response settles,
  run the \<open>try\<close> or the \<open>catch\<close> branch. The two halves are separate because the polling
  callback and \<open>Promise.all\<close> start both fetches before either settles. Every setter
  call in the component stores an absolute value, so a handler is the composition of its
  assignments.
\<close>

definition fetchAlerts_settled :: "jsobj list resp \<Rightarrow> dashboard \<Rightarrow> dashboard" where
  "fetchAlerts_settled r d =
     (case r of
        Inr data \<Rightarrow> d\<lparr>alerts := data, error := JNull\<rparr>
      | Inl err \<Rightarrow> d\<lparr>error := JStr ''Failed to fetch alerts''\<rparr>)"

definition fetchAlerts :: "string \<Rightarrow> jsobj list resp \<Rightarrow> dashboard \<Rightarrow> dashboard" where
  "fetchAlerts B r d = fetchAlerts_settled r (axios (GET, API B @ ''/alerts'') d)"

definition fetchStatus_settled :: "jsobj resp \<Rightarrow> dashboard \<Rightarrow> dashboard" where
  "fetchStatus_settled r d =
     (case r of
        Inr data \<Rightarrow> d\<lparr>status := data, error := JNull\<rparr>
      | Inl err \<Rightarrow> d\<lparr>error := JStr ''Failed to fetch status''\<rparr>)"

definition fetchStatus :: "string \<Rightarrow> jsobj resp \<Rightarrow> dashboard \<Rightarrow> dashboard" where
  "fetchStatus B r d = fetchStatus_settled r (axios (GET, API B @ ''/status'') d)"

subsection \<open>Commands\<close>

text \<open>
  Each command takes the responses its awaited requests settle with, in the order it awaits
  them; a response is not looked at when the request is never sent. The two fetches catch
  their own failures, so only the command's own request reaches its \<open>catch\<close>.
\<close>

definition startMonitoring :: "string \<Rightarrow> jsobj resp \<Rightarrow> jsobj resp \<Rightarrow> dashboard \<Rightarrow> dashboard" where
  "startMonitoring B r rs d =
     (let d1 = axios (POST, API B @ ''/monitoring/start'') d in
      case r of
        Inr ack \<Rightarrow> fetchStatus B rs d1
      | Inl err \<Rightarrow> d1\<lparr>error := JStr ''Failed to start monitoring''\<rparr>)"

definition stopMonitoring :: "string \<Rightarrow> jsobj resp \<Rightarrow> jsobj resp \<Rightarrow> dashboard \<Rightarrow> dashboard" where
  "stopMonitoring B r rs d =
     (let d1 = axios (POST, API B @ ''/monitoring/stop'') d in
      case r of
        Inr ack \<Rightarrow> fetchStatus B rs d1
      | Inl err \<Rightarrow> d1\<lparr>error := JStr ''Failed to stop monitoring''\<rparr>)"

text \<open>\<open>confirmed\<close> is what \<open>window.confirm\<close> returns.\<close>

definition clearAlerts ::
  "string \<Rightarrow> bool \<Rightarrow> jsobj resp \<Rightarrow> jsobj list resp \<Rightarrow> jsobj resp \<Rightarrow> dashboard \<Rightarrow> dashboard" where
  "clearAlerts B confirmed r ra rs d =
     (if confirmed then
        (let d1 = axios (DELETE, API B @ ''/alerts'') d in
         case r of
           Inr ack \<Rightarrow> fetchStatus B rs (fetchAlerts B ra d1)
         | Inl err \<Rightarrow> d1\<lparr>error := JStr ''Failed to clear alerts''\<rparr>)
      else d)"

text \<open>
  The \<open>catch\<close> branch of \<open>generateMockAlert\<close>. The titles start with the UTF-8 bytes of
  the check mark and of the cross mark.
\<close>

definition mock_failed :: "exn \<Rightarrow> dashboard \<Rightarrow> dashboard" where
  "mock_failed err d =
     setTimeout HideNotification 4000
       (d\<lparr>error := JStr ''Failed to generate mock alert'',
          notification := Some \<lparr> ntype = ''error'',
                                 title = CHR 0xE2 # CHR 0x9D # CHR 0x8C # '' Error'',
                                 message = [Lit ''Failed to generate test alert''],
                                 details = [Message err] \<rparr>\<rparr>)"

text \<open>
  The response body of the mock endpoint is an object whose properties are objects;
  \<open>response.data.alert\<close> is \<open>undefined\<close> when the property is missing, and the first
  property read on it then throws into the \<open>catch\<close>, after both fetches have run.
\<close>

definition generateMockAlert ::
  "string \<Rightarrow> (string \<times> jsobj) list resp \<Rightarrow> jsobj list resp \<Rightarrow> jsobj resp \<Rightarrow> dashboard \<Rightarrow> dashboard" where
  "generateMockAlert B r ra rs d =
     (let d1 = axios (GET, API B @ ''/test/generate-mock-alert'') d in
      case r of
        Inl err \<Rightarrow> mock_failed err d1
      | Inr data \<Rightarrow>
          (let d2 = fetchStatus B rs (fetchAlerts B ra d1) in
           case map_of data ''alert'' of
             None \<Rightarrow>
               mock_failed
                 (TypeError ''Cannot read properties of undefined (reading 'threat_level')'') d2
           | Some alertData \<Rightarrow>
               setTimeout HideNotification 4000
                 (d2\<lparr>notification := Some
                    \<lparr> ntype = ''success'',
                      title = CHR 0xE2 # CHR 0x9C # CHR 0x85 # '' Test Alert Generated!'',
                      message = [Lit ''Created '', Val (get alertData ''threat_level''),
                                 Lit '' threat alert from '', Val (get alertData ''platform'')],
                      details = [Lit ''Score: '', Pct1 (get alertData ''score''),
                                 Lit ''% | Author: @'', Val (get alertData ''author'')] \<rparr>\<rparr>)))"

subsection \<open>Effects\<close>

text \<open>
  The first effect runs \<open>loadData\<close>: it sets \<open>loading\<close>, starts both fetches, and clears
  \<open>loading\<close> once both have settled. The second registers the polling interval; its
  cleanup clears the interval it registered.
\<close>

definition loadData_begin :: "string \<Rightarrow> dashboard \<Rightarrow> dashboard" where
  "loadData_begin B d =
     axios (GET, API B @ ''/status'') (axios (GET, API B @ ''/alerts'') (d\<lparr>loading := True\<rparr>))"

definition loadData_end :: "dashboard \<Rightarrow> dashboard" where
  "loadData_end d = d\<lparr>loading := False\<rparr>"

definition poll_tick :: "string \<Rightarrow> dashboard \<Rightarrow> dashboard" where
  "poll_tick B d = axios (GET, API B @ ''/status'') (axios (GET, API B @ ''/alerts'') d)"

definition mount :: "string \<Rightarrow> dashboard \<Rightarrow> nat \<times> dashboard" where
  "mount B d = setInterval PollTick 15000 (loadData_begin B d)"

definition unmount :: "nat \<Rightarrow> dashboard \<Rightarrow> dashboard" where
  "unmount interval d = clearInterval interval d"

text \<open>
  The browser runs the callback of a registered timer; a timeout is removed when it runs,
  an interval stays. A timer that is not registered does not run.
\<close>

definition run_callback :: "string \<Rightarrow> callback \<Rightarrow> dashboard \<Rightarrow> dashboard" where
  "run_callback B cb d =
     (case cb of PollTick \<Rightarrow> poll_tick B d | HideNotification \<Rightarrow> d\<lparr>notification := None\<rparr>)"

definition timer_fires :: "string \<Rightarrow> nat \<Rightarrow> dashboard \<Rightarrow> dashboard" where
  "timer_fires B i d =
     (case find (\<lambda>t. timer_id t = i) (timers d) of
        None \<Rightarrow> d
      | Some t \<Rightarrow>
          run_callback B (callback t)
            (if repeating t then d else d\<lparr>timers := filter (\<lambda>t. timer_id t \<noteq> i) (timers d)\<rparr>))"

subsection \<open>Rendering\<close>

datatype alert_list = NoThreats | Cards "(jsval \<times> alert_card) list"

record page =
  page_popup :: "notification option"
  page_banner :: "node list slot"
  page_status :: status_panel
  page_count :: "node list"
  page_list :: alert_list

datatype view = LoadingScreen | Page page

text \<open>
  \<open>NotificationPopup\<close> returns \<open>null\<close> for a null notification and otherwise lays the
  notification out; the page keeps the notification it is given. The counter line holds the
  UTF-8 bytes of the bullet.
\<close>

definition App :: "dashboard \<Rightarrow> exn + view" where
  "App d =
     (if loading d then Inr LoadingScreen
      else
        case MonitoringStatus (status d) of
          Inl e \<Rightarrow> Inl e
        | Inr panel \<Rightarrow>
            Inr (Page
              \<lparr> page_popup = notification d,
                page_banner = js_and (error d) [Lit ''Error:'', Lit '' '', Val (error d)],
                page_status = panel,
                page_count = [Val (JNum (of_nat (length (alerts d)))),
                              Lit ('' alerts '' @ [CHR 0xE2, CHR 0x80, CHR 0xA2] @ '' Updated every 15 seconds'')],
                page_list =
                  (if length (alerts d) = 0 then NoThreats
                   else Cards (map (\<lambda>alert. (get alert ''id'', ThreatAlert alert)) (alerts d))) \<rparr>))"

subsection \<open>Events\<close>

text \<open>
  What can happen to the mounted component: a pending fetch settles, \<open>Promise.all\<close> of the
  initial load resolves, a registered timer runs, or the user clicks a control. A control
  exists only on the rendered page, and the browser delivers no click to a disabled button.
  A click carries the answers its handler will meet: the answer of \<open>window.confirm\<close> and
  the responses of the requests it awaits.
\<close>

datatype event =
    AlertsSettled "jsobj list resp"
  | StatusSettled "jsobj resp"
  | LoadSettled
  | TimerFires nat
  | ClickStart "jsobj resp" "jsobj resp"
  | ClickStop "jsobj resp" "jsobj resp"
  | ClickClear bool "jsobj resp" "jsobj list resp" "jsobj resp"
  | ClickGenerate "(string \<times> jsobj) list resp" "jsobj list resp" "jsobj resp"
  | ClickClose

definition on_page :: "dashboard \<Rightarrow> (page \<Rightarrow> dashboard) \<Rightarrow> dashboard" where
  "on_page d handler = (case App d of Inr (Page p) \<Rightarrow> handler p | _ \<Rightarrow> d)"

fun step :: "string \<Rightarrow> event \<Rightarrow> dashboard \<Rightarrow> dashboard" where
  "step B (AlertsSettled r) d = fetchAlerts_settled r d"
| "step B (StatusSettled r) d = fetchStatus_settled r d"
| "step B LoadSettled d = loadData_end d"
| "step B (TimerFires i) d = timer_fires B i d"
| "step B (ClickStart r rs) d =
     on_page d (\<lambda>p. if start_disabled (page_status p) then d else startMonitoring B r rs d)"
| "step B (ClickStop r rs) d =
     on_page d (\<lambda>p. if stop_disabled (page_status p) then d else stopMonitoring B r rs d)"
| "step B (ClickClear c r ra rs) d = on_page d (\<lambda>p. clearAlerts B c r ra rs d)"
| "step B (ClickGenerate r ra rs) d = on_page d (\<lambda>p. generateMockAlert B r ra rs d)"
| "step B ClickClose d =
     on_page d (\<lambda>p. if page_popup p = None then d else d\<lparr>notification := None\<rparr>)"

definition run :: "string \<Rightarrow> event list \<Rightarrow> dashboard \<Rightarrow> dashboard" where
  "run B es d = foldl (\<lambda>d e. step B e d) d es"

text \<open>Whether an event brings the body of a successful \<open>GET /status\<close>.\<close>

fun is_ok :: "'a resp \<Rightarrow> bool" where
  "is_ok (Inr x) = True"
| "is_ok (Inl e) = False"


text \<open>Timer ids are fresh: every registered timer has an id below the next one.\<close>

definition fresh_ids :: "dashboard \<Rightarrow> bool" where
  "fresh_ids d = list_all (\<lambda>t. timer_id t < next_timer d) (timers d)"

text \<open>
  The interval that the polling effect registers on a fresh component, and the state of the
  timers while it is registered: ids are fresh and distinct, and it is the only interval.
\<close>

definition poll_timer :: timer where
  "poll_timer = \<lparr>timer_id = 0, timer_ms = 15000, repeating = True, callback = PollTick\<rparr>"

definition polling :: "dashboard \<Rightarrow> bool" where
  "polling d = (fresh_ids d \<and> distinct (map timer_id (timers d))
      \<and> filter repeating (timers d) = [poll_timer])"

section \<open>The backend, as the specification describes it\<close>

text \<open>
  Modelled from the spec: the server behind the API is not among the source files. This is
  the MonitoringState of section 3 together with the Alert Store: the persisted alerts in
  the order they were written, and the four status fields.
\<close>

record backend =
  store :: "jsobj list"
  is_running :: bool
  platforms_monitored :: "string list"
  alerts_count :: nat
  last_check :: "string option"

text \<open>
  Modelled from the spec: the Monitoring Controller starts Stopped, with an empty store and
  a zero counter (section 4.4); the platforms it scans are a parameter.
\<close>

definition boot :: "string list \<Rightarrow> backend" where
  "boot ps = \<lparr> store = [], is_running = False, platforms_monitored = ps,
               alerts_count = 0, last_check = None \<rparr>"

text \<open>
  Modelled from the spec: what changes the backend (sections 3, 4.4 and 6). \<open>Start\<close> and
  \<open>Stop\<close> are idempotent; \<open>Clear\<close> empties the store and resets the counter together and
  leaves \<open>is_running\<close> alone; a qualifying verdict is persisted and counted; a completed
  scan cycle stamps \<open>last_check\<close>; the mock endpoint persists its alert whatever its score.
\<close>

datatype command = Start | Stop | Clear | Persist jsobj | CycleDone string | GenerateMock jsobj

fun controller :: "command \<Rightarrow> backend \<Rightarrow> backend" where
  "controller Start b = b\<lparr>is_running := True\<rparr>"
| "controller Stop b = b\<lparr>is_running := False\<rparr>"
| "controller Clear b = b\<lparr>store := [], alerts_count := 0\<rparr>"
| "controller (Persist a) b = b\<lparr>store := store b @ [a], alerts_count := Suc (alerts_count b)\<rparr>"
| "controller (CycleDone t) b = b\<lparr>last_check := Some t\<rparr>"
| "controller (GenerateMock a) b = b\<lparr>store := store b @ [a], alerts_count := Suc (alerts_count b)\<rparr>"

definition serve :: "command list \<Rightarrow> backend \<Rightarrow> backend" where
  "serve cs b = foldl (\<lambda>b c. controller c b) b cs"

text \<open>
  Modelled from the spec: the response bodies of section 6. \<open>GET /alerts\<close> lists all
  persisted alerts, \<open>GET /status\<close> returns the MonitoringState object, and the mock
  endpoint answers \<open>{alert: Alert}\<close>.
\<close>

definition GET_alerts :: "backend \<Rightarrow> jsobj list" where
  "GET_alerts b = store b"

definition GET_status :: "backend \<Rightarrow> jsobj" where
  "GET_status b =
     [(''is_running'', JBool (is_running b)),
      (''platforms_monitored'', JArr (map JStr (platforms_monitored b))),
      (''alerts_count'', JNum (of_nat (alerts_count b))),
      (''last_check'', (case last_check b of None \<Rightarrow> JNull | Some t \<Rightarrow> JStr t))]"


text \<open>Modelled from the spec: the field names of an Alert (section 3).\<close>

definition alert_fields :: "string list" where
  "alert_fields =
     [''id'', ''platform'', ''author'', ''content'', ''url'', ''timestamp'', ''score'',
      ''threat_level'', ''reason'', ''ai_analysis'']"

section \<open>Sample data\<close>

definition sample_alert :: jsobj where
  "sample_alert =
     [(''id'', JStr ''a1''), (''platform'', JStr ''Twitter''), (''author'', JStr ''troll42''),
      (''content'', JStr ''you will regret this''), (''url'', JStr ''https://x.example/1''),
      (''timestamp'', JStr ''2025-01-01T10:00:00''), (''score'', JNum (9/10)),
      (''threat_level'', JStr ''critical''), (''reason'', JStr ''High toxicity detected''),
      (''ai_analysis'', JStr ''Direct threat against the VIP'')]"

text \<open>
  The sample alert with two more properties than section 3 lists, and the sample alert with
  an empty \<open>ai_analysis\<close>.
\<close>

definition tagged_alert :: jsobj where
  "tagged_alert =
     (''_id'', JStr ''65f0c1'') # (''posted_at'', JStr ''2025-01-01T09:59:00'') # sample_alert"

definition quiet_alert :: jsobj where
  "quiet_alert =
     [(''id'', JStr ''a1''), (''platform'', JStr ''Twitter''), (''author'', JStr ''troll42''),
      (''content'', JStr ''you will regret this''), (''url'', JStr ''https://x.example/1''),
      (''timestamp'', JStr ''2025-01-01T10:00:00''), (''score'', JNum (9/10)),
      (''threat_level'', JStr ''critical''), (''reason'', JStr ''High toxicity detected''),
      (''ai_analysis'', JStr [])]"

definition sample_status :: jsobj where
  "sample_status =
     [(''is_running'', JBool True),
      (''platforms_monitored'', JArr [JStr ''Twitter'', JStr ''Facebook'', JStr ''Instagram'']),
      (''alerts_count'', JNum 1), (''last_check'', JStr ''2025-01-01T10:00:05'')]"

text \<open>The dashboard after an initial load that fetched one alert and a running status.\<close>

definition loaded :: dashboard where
  "loaded =
     loadData_end
       (fetchStatus_settled (Inr sample_status)
         (fetchAlerts_settled (Inr [sample_alert]) (snd (mount ''http://backend'' initial))))"

text \<open>The dashboard after an initial load in which both fetches failed.\<close>

definition idle :: dashboard where
  "idle =
     loadData_end
       (fetchStatus_settled (Inl (RequestFailed ''Network Error''))
         (fetchAlerts_settled (Inl (RequestFailed ''Network Error''))
           (snd (mount ''http://backend'' initial))))"

text \<open>
  A poll that falls between two writes of the backend: the component has loaded from a
  freshly booted backend, the monitoring is started, the interval fires, \<open>GET /alerts\<close>
  is answered, a scan persists one alert, and then \<open>GET /status\<close> is answered.
\<close>

definition race_boot :: backend where
  "race_boot = boot [''Twitter'', ''Facebook'', ''Instagram'']"

definition race_before :: backend where
  "race_before = serve [Start] race_boot"

definition race_after :: backend where
  "race_after = serve [Start, Persist sample_alert] race_boot"

definition raced :: dashboard where
  "raced =
     run ''http://backend''
       [AlertsSettled (Inr (GET_alerts race_boot)), StatusSettled (Inr (GET_status race_boot)),
        LoadSettled, TimerFires 0,
        AlertsSettled (Inr (GET_alerts race_before)), StatusSettled (Inr (GET_status race_after))]
       (snd (mount ''http://backend'' initial))"

definition lost :: exn where
  "lost = RequestFailed ''Network Error''"

section \<open>What a fetch does to the state\<close>

lemma fetchAlerts_failed:
  "fetchAlerts B (Inl e) d =
     d\<lparr>sent := sent d @ [(GET, API B @ ''/alerts'')], error := JStr ''Failed to fetch alerts''\<rparr>"
  by (simp add: fetchAlerts_def fetchAlerts_settled_def axios_def)

lemma fetchStatus_failed:
  "fetchStatus B (Inl e) d =
     d\<lparr>sent := sent d @ [(GET, API B @ ''/status'')], error := JStr ''Failed to fetch status''\<rparr>"
  by (simp add: fetchStatus_def fetchStatus_settled_def axios_def)

lemma fetchAlerts_ok:
  "fetchAlerts B (Inr xs) d =
     d\<lparr>sent := sent d @ [(GET, API B @ ''/alerts'')], alerts := xs, error := JNull\<rparr>"
  by (simp add: fetchAlerts_def fetchAlerts_settled_def axios_def)

lemma fetchStatus_ok:
  "fetchStatus B (Inr st) d =
     d\<lparr>sent := sent d @ [(GET, API B @ ''/status'')], status := st, error := JNull\<rparr>"
  by (simp add: fetchStatus_def fetchStatus_settled_def axios_def)

text \<open>The page depends on the error cell through the banner only, and not on the request log.\<close>

lemma App_banner:
  "App d = Inr (Page p) \<Longrightarrow>
   App (d\<lparr>error := JStr (m # ms)\<rparr>) =
     Inr (Page (p\<lparr>page_banner := Section [Lit ''Error:'', Lit '' '', Val (JStr (m # ms))]\<rparr>))"
  by (auto simp add: App_def js_and_def split: if_splits sum.splits)

lemma App_settled:
  "App (fetchAlerts_settled ra (axios req d)) = App (fetchAlerts_settled ra d)"
  "App (fetchStatus_settled rs (axios req d)) = App (fetchStatus_settled rs d)"
  by (simp_all add: App_def axios_def fetchAlerts_settled_def fetchStatus_settled_def
      split: sum.splits)

text \<open>Rendering does not throw, and with \<open>loading\<close> cleared it gives the page.\<close>

lemma MonitoringStatus_total: "\<exists>p. MonitoringStatus st = Inr p"
  by (cases "get st ''platforms_monitored''") (simp_all add: MonitoringStatus_def opt_length_def)

lemma App_page: "\<not> loading d \<Longrightarrow> \<exists>p. App d = Inr (Page p)"
  using MonitoringStatus_total [of "status d"] by (auto simp add: App_def)

lemma App_loaded: "\<exists>p. App loaded = Inr (Page p)"
  by (simp add: App_def loaded_def loadData_end_def fetchStatus_settled_def
      fetchAlerts_settled_def MonitoringStatus_def opt_length_def get_def sample_status_def)

text \<open>
  C1. When a \<open>GET /alerts\<close> or a \<open>GET /status\<close> fails, the alerts list and the status
  object stay as they were, and on the rendered page only the error banner changes: it shows
  the message of the failure. When one succeeds, the fetched data is stored and the error is
  cleared, so the page has no banner. This holds for the half that handles the response,
  and the page after a whole fetch is the page after that half.
\<close>

theorem failed_fetch_keeps_data:
  "alerts (fetchAlerts_settled (Inl e) d) = alerts d
   \<and> status (fetchAlerts_settled (Inl e) d) = status d
   \<and> alerts (fetchStatus_settled (Inl e) d) = alerts d
   \<and> status (fetchStatus_settled (Inl e) d) = status d
   \<and> (App d = Inr (Page p) \<longrightarrow>
        App (fetchAlerts_settled (Inl e) d) =
          Inr (Page (p\<lparr>page_banner :=
                 Section [Lit ''Error:'', Lit '' '', Val (JStr ''Failed to fetch alerts'')]\<rparr>))
      \<and> App (fetchStatus_settled (Inl e) d) =
          Inr (Page (p\<lparr>page_banner :=
                 Section [Lit ''Error:'', Lit '' '', Val (JStr ''Failed to fetch status'')]\<rparr>)))
   \<and> alerts (fetchAlerts_settled (Inr xs) d) = xs
   \<and> error (fetchAlerts_settled (Inr xs) d) = JNull
   \<and> status (fetchAlerts_settled (Inr xs) d) = status d
   \<and> status (fetchStatus_settled (Inr st) d) = st
   \<and> error (fetchStatus_settled (Inr st) d) = JNull
   \<and> alerts (fetchStatus_settled (Inr st) d) = alerts d
   \<and> (App (fetchAlerts_settled (Inr xs) d) = Inr (Page q) \<longrightarrow> page_banner q = Falsy JNull)
   \<and> (App (fetchStatus_settled (Inr st) d) = Inr (Page r) \<longrightarrow> page_banner r = Falsy JNull)
   \<and> App (fetchAlerts B ra d) = App (fetchAlerts_settled ra d)
   \<and> App (fetchStatus B rs d) = App (fetchStatus_settled rs d)"
proof -
  have failed: "fetchAlerts_settled (Inl e) d = d\<lparr>error := JStr ''Failed to fetch alerts''\<rparr>"
    "fetchStatus_settled (Inl e) d = d\<lparr>error := JStr ''Failed to fetch status''\<rparr>"
    by (simp_all add: fetchAlerts_settled_def fetchStatus_settled_def)
  have ok: "fetchAlerts_settled (Inr xs) d = d\<lparr>alerts := xs, error := JNull\<rparr>"
    "fetchStatus_settled (Inr st) d = d\<lparr>status := st, error := JNull\<rparr>"
    by (simp_all add: fetchAlerts_settled_def fetchStatus_settled_def)
  have banner: "App (d\<lparr>error := JStr ''Failed to fetch alerts''\<rparr>) =
          Inr (Page (p\<lparr>page_banner :=
                 Section [Lit ''Error:'', Lit '' '', Val (JStr ''Failed to fetch alerts'')]\<rparr>))"
    "App (d\<lparr>error := JStr ''Failed to fetch status''\<rparr>) =
          Inr (Page (p\<lparr>page_banner :=
                 Section [Lit ''Error:'', Lit '' '', Val (JStr ''Failed to fetch status'')]\<rparr>))"
    if "App d = Inr (Page p)"
    using that by (simp_all add: App_banner)
  have cleared: "page_banner q = Falsy JNull"
    if "App (d\<lparr>alerts := xs, error := JNull\<rparr>) = Inr (Page q)"
    using that by (auto simp add: App_def js_and_def split: if_splits sum.splits)
  have cleared': "page_banner r = Falsy JNull"
    if "App (d\<lparr>status := st, error := JNull\<rparr>) = Inr (Page r)"
    using that by (auto simp add: App_def js_and_def split: if_splits sum.splits)
  show ?thesis
    unfolding failed ok fetchAlerts_def fetchStatus_def App_settled
    using banner cleared cleared' by simp
qed

theorem failed_fetch_keeps_data_witness:
  "(\<exists>p. App loaded = Inr (Page p)
      \<and> App (fetchAlerts_settled (Inl lost) loaded) =
          Inr (Page (p\<lparr>page_banner :=
                 Section [Lit ''Error:'', Lit '' '', Val (JStr ''Failed to fetch alerts'')]\<rparr>))
      \<and> App (fetchStatus_settled (Inl lost) loaded) =
          Inr (Page (p\<lparr>page_banner :=
                 Section [Lit ''Error:'', Lit '' '', Val (JStr ''Failed to fetch status'')]\<rparr>)))
   \<and> alerts (fetchAlerts_settled (Inl lost) loaded) = [sample_alert]
   \<and> status (fetchStatus_settled (Inl lost) loaded) = sample_status
   \<and> (\<exists>q. App (fetchAlerts_settled (Inr []) (fetchAlerts_settled (Inl lost) loaded)) =
            Inr (Page q) \<and> page_banner q = Falsy JNull)
   \<and> (\<exists>r. App (fetchStatus_settled (Inr initial_status) (fetchAlerts_settled (Inl lost) loaded)) =
            Inr (Page r) \<and> page_banner r = Falsy JNull)"
proof -
  obtain p where page: "App loaded = Inr (Page p)"
    using App_loaded by blast
  have kept: "alerts loaded = [sample_alert]" "status loaded = sample_status"
    by (simp_all add: loaded_def loadData_end_def fetchStatus_settled_def fetchAlerts_settled_def)
  have shown: "\<not> loading loaded"
    by (simp add: loaded_def loadData_end_def)
  obtain q where q:
    "App (fetchAlerts_settled (Inr []) (fetchAlerts_settled (Inl lost) loaded)) = Inr (Page q)"
    using App_page [of "fetchAlerts_settled (Inr []) (fetchAlerts_settled (Inl lost) loaded)"] shown
    by (auto simp add: fetchAlerts_settled_def)
  obtain r where r:
    "App (fetchStatus_settled (Inr initial_status) (fetchAlerts_settled (Inl lost) loaded)) =
       Inr (Page r)"
    using App_page [of "fetchStatus_settled (Inr initial_status)
                         (fetchAlerts_settled (Inl lost) loaded)"] shown
    by (auto simp add: fetchAlerts_settled_def fetchStatus_settled_def)
  from failed_fetch_keeps_data [of lost loaded p "[]" initial_status q r]
    failed_fetch_keeps_data
      [of lost "fetchAlerts_settled (Inl lost) loaded" p "[]" initial_status q r]
    page kept q r
  show ?thesis by auto
qed

section \<open>The requests of the controls\<close>

lemma sent_fetchAlerts: "sent (fetchAlerts B ra d) = sent d @ [(GET, API B @ ''/alerts'')]"
  by (cases ra) (simp_all add: fetchAlerts_failed fetchAlerts_ok)

lemma sent_fetchStatus: "sent (fetchStatus B rs d) = sent d @ [(GET, API B @ ''/status'')]"
  by (cases rs) (simp_all add: fetchStatus_failed fetchStatus_ok)

lemma sent_start:
  "sent (startMonitoring B r rs d) =
     sent d @ (POST, API B @ ''/monitoring/start'') #
       (if is_ok r then [(GET, API B @ ''/status'')] else [])"
  by (cases r) (simp_all add: startMonitoring_def Let_def sent_fetchStatus axios_def)

lemma sent_stop:
  "sent (stopMonitoring B r rs d) =
     sent d @ (POST, API B @ ''/monitoring/stop'') #
       (if is_ok r then [(GET, API B @ ''/status'')] else [])"
  by (cases r) (simp_all add: stopMonitoring_def Let_def sent_fetchStatus axios_def)

lemma sent_clear:
  "sent (clearAlerts B True r ra rs d) =
     sent d @ (DELETE, API B @ ''/alerts'') #
       (if is_ok r then [(GET, API B @ ''/alerts''), (GET, API B @ ''/status'')] else [])"
  by (cases r) (simp_all add: clearAlerts_def Let_def sent_fetchStatus sent_fetchAlerts axios_def)

lemma panel_buttons:
  "MonitoringStatus st = Inr p \<Longrightarrow>
     start_disabled p = truthy (get st ''is_running'') \<and>
     stop_disabled p = (\<not> truthy (get st ''is_running''))"
  by (auto simp add: MonitoringStatus_def split: sum.splits)

lemma App_page_status:
  "App d = Inr (Page p) \<Longrightarrow> MonitoringStatus (status d) = Inr (page_status p)"
  by (auto simp add: App_def split: if_splits sum.splits)

lemma App_idle: "\<exists>p. App idle = Inr (Page p)"
  by (simp add: App_def idle_def loadData_end_def fetchStatus_settled_def
      fetchAlerts_settled_def MonitoringStatus_def opt_length_def get_def initial_status_def
      mount_def setInterval_def add_timer_def loadData_begin_def axios_def initial_def)

lemma status_idle: "status idle = initial_status"
  by (simp add: idle_def loadData_end_def fetchStatus_settled_def
      fetchAlerts_settled_def mount_def setInterval_def add_timer_def loadData_begin_def
      axios_def initial_def)

lemma status_loaded: "status loaded = sample_status"
  by (simp add: loaded_def loadData_end_def fetchStatus_settled_def fetchAlerts_settled_def)

lemma sent_idle:
  "sent idle = [(GET, ''http://backend/api/alerts''), (GET, ''http://backend/api/status'')]"
  by (simp add: idle_def loadData_end_def fetchStatus_settled_def
      fetchAlerts_settled_def mount_def setInterval_def add_timer_def loadData_begin_def
      axios_def initial_def API_def)

lemma sent_loaded:
  "sent loaded = [(GET, ''http://backend/api/alerts''), (GET, ''http://backend/api/status'')]"
  by (simp add: loaded_def loadData_end_def fetchStatus_settled_def
      fetchAlerts_settled_def mount_def setInterval_def add_timer_def loadData_begin_def
      axios_def initial_def API_def)

text \<open>
  C3. Start sends \<open>POST /monitoring/start\<close>, Stop sends \<open>POST /monitoring/stop\<close> and
  Clear (once confirmed) sends \<open>DELETE /alerts\<close>, each under the API prefix. After a
  successful start or stop the only further request is \<open>GET /status\<close>; after a successful
  clear the further requests are \<open>GET /alerts\<close> and \<open>GET /status\<close>; after a failed
  command nothing is fetched. A click on an enabled control runs exactly its handler.
\<close>

theorem controls_issue_commands:
  "sent (startMonitoring B (Inr ack) rs d) =
     sent d @ [(POST, API B @ ''/monitoring/start''), (GET, API B @ ''/status'')]
   \<and> sent (stopMonitoring B (Inr ack) rs d) =
     sent d @ [(POST, API B @ ''/monitoring/stop''), (GET, API B @ ''/status'')]
   \<and> sent (clearAlerts B True (Inr ack) ra rs d) =
     sent d @ [(DELETE, API B @ ''/alerts''), (GET, API B @ ''/alerts''), (GET, API B @ ''/status'')]
   \<and> sent (startMonitoring B (Inl e) rs d) = sent d @ [(POST, API B @ ''/monitoring/start'')]
   \<and> sent (stopMonitoring B (Inl e) rs d) = sent d @ [(POST, API B @ ''/monitoring/stop'')]
   \<and> sent (clearAlerts B True (Inl e) ra rs d) = sent d @ [(DELETE, API B @ ''/alerts'')]
   \<and> (App d = Inr (Page p) \<and> \<not> start_disabled (page_status p) \<longrightarrow>
         step B (ClickStart r rs) d = startMonitoring B r rs d)
   \<and> (App d = Inr (Page p) \<and> \<not> stop_disabled (page_status p) \<longrightarrow>
         step B (ClickStop r rs) d = stopMonitoring B r rs d)
   \<and> (App d = Inr (Page p) \<longrightarrow> step B (ClickClear c r ra rs) d = clearAlerts B c r ra rs d)"
  by (simp add: sent_start sent_stop sent_clear on_page_def)

theorem controls_issue_commands_witness:
  "sent (step ''http://backend'' (ClickStart (Inr []) (Inr sample_status)) idle) =
     [(GET, ''http://backend/api/alerts''), (GET, ''http://backend/api/status''),
      (POST, ''http://backend/api/monitoring/start''), (GET, ''http://backend/api/status'')]
   \<and> sent (step ''http://backend'' (ClickStop (Inr []) (Inr initial_status)) loaded) =
     [(GET, ''http://backend/api/alerts''), (GET, ''http://backend/api/status''),
      (POST, ''http://backend/api/monitoring/stop''), (GET, ''http://backend/api/status'')]
   \<and> sent (step ''http://backend'' (ClickClear True (Inr []) (Inr []) (Inr initial_status)) loaded) =
     [(GET, ''http://backend/api/alerts''), (GET, ''http://backend/api/status''),
      (DELETE, ''http://backend/api/alerts''), (GET, ''http://backend/api/alerts''),
      (GET, ''http://backend/api/status'')]"
proof -
  obtain p where p: "App idle = Inr (Page p)"
    using App_idle by blast
  obtain q where q: "App loaded = Inr (Page q)"
    using App_loaded by blast
  have start_enabled: "\<not> start_disabled (page_status p)"
    using panel_buttons [OF App_page_status [OF p]]
    by (simp add: status_idle initial_status_def get_def)
  have stop_enabled: "\<not> stop_disabled (page_status q)"
    using panel_buttons [OF App_page_status [OF q]]
    by (simp add: status_loaded sample_status_def get_def)
  from controls_issue_commands
         [of "''http://backend''" "[]" "Inr sample_status" idle "Inr []" lost p "Inr []" True]
       controls_issue_commands
         [of "''http://backend''" "[]" "Inr initial_status" loaded "Inr []" lost q "Inr []" True]
       p q start_enabled stop_enabled
  show ?thesis by (simp add: sent_idle sent_loaded API_def)
qed

text \<open>
  C8. When the user declines the confirmation dialog, \<open>clearAlerts\<close> changes nothing: no
  request is sent and the alerts list, the status and every other cell stay as they were.
  When the user accepts, the first request sent is \<open>DELETE /alerts\<close>.
\<close>

theorem clear_needs_confirmation:
  "clearAlerts B False r ra rs d = d \<and> step B (ClickClear False r ra rs) d = d
   \<and> take (Suc (length (sent d))) (sent (clearAlerts B True r ra rs d)) =
       sent d @ [(DELETE, API B @ ''/alerts'')]"
proof (intro conjI)
  show declined: "clearAlerts B False r ra rs d = d"
    by (simp add: clearAlerts_def)
  show "step B (ClickClear False r ra rs) d = d"
    by (simp add: on_page_def declined split: sum.splits view.splits)
  show "take (Suc (length (sent d))) (sent (clearAlerts B True r ra rs d)) =
          sent d @ [(DELETE, API B @ ''/alerts'')]"
    by (simp add: sent_clear)
qed

text \<open>
  C10. The Start button is disabled exactly when the displayed \<open>is_running\<close> is truthy and
  the Stop button exactly when it is not. So a click on Start while the status shows
  \<open>is_running: true\<close>, and a click on Stop while it shows \<open>is_running: false\<close>, changes
  nothing and sends nothing.
\<close>

theorem buttons_follow_is_running:
  "(MonitoringStatus st = Inr p \<longrightarrow>
      start_disabled p = truthy (get st ''is_running'') \<and>
      stop_disabled p = (\<not> truthy (get st ''is_running'')))
   \<and> (get (status d) ''is_running'' = JBool True \<longrightarrow> step B (ClickStart r rs) d = d)
   \<and> (get (status d) ''is_running'' = JBool False \<longrightarrow> step B (ClickStop r rs) d = d)"
proof (intro conjI impI)
  assume running: "get (status d) ''is_running'' = JBool True"
  show "step B (ClickStart r rs) d = d"
  proof (cases "App d")
    case (Inl e)
    then show ?thesis by (simp add: on_page_def)
  next
    case (Inr v)
    show ?thesis
    proof (cases v)
      case LoadingScreen
      with Inr show ?thesis by (simp add: on_page_def)
    next
      case (Page p)
      with Inr have "start_disabled (page_status p)"
        using panel_buttons [OF App_page_status] running by simp
      with Inr Page show ?thesis by (simp add: on_page_def)
    qed
  qed
next
  assume stopped: "get (status d) ''is_running'' = JBool False"
  show "step B (ClickStop r rs) d = d"
  proof (cases "App d")
    case (Inl e)
    then show ?thesis by (simp add: on_page_def)
  next
    case (Inr v)
    show ?thesis
    proof (cases v)
      case LoadingScreen
      with Inr show ?thesis by (simp add: on_page_def)
    next
      case (Page p)
      with Inr have "stop_disabled (page_status p)"
        using panel_buttons [OF App_page_status] stopped by simp
      with Inr Page show ?thesis by (simp add: on_page_def)
    qed
  qed
qed (simp_all add: panel_buttons)

theorem buttons_follow_is_running_witness:
  "get (status loaded) ''is_running'' = JBool True
   \<and> step ''http://backend'' (ClickStart (Inr []) (Inr sample_status)) loaded = loaded
   \<and> get (status idle) ''is_running'' = JBool False
   \<and> step ''http://backend'' (ClickStop (Inr []) (Inr sample_status)) idle = idle
   \<and> (\<exists>p. MonitoringStatus sample_status = Inr p \<and> start_disabled p \<and> \<not> stop_disabled p)"
proof -
  have running: "get (status loaded) ''is_running'' = JBool True"
    by (simp add: status_loaded sample_status_def get_def)
  have stopped: "get (status idle) ''is_running'' = JBool False"
    by (simp add: status_idle initial_status_def get_def)
  obtain p where p: "MonitoringStatus sample_status = Inr p"
    by (simp add: MonitoringStatus_def opt_length_def get_def sample_status_def)
  from buttons_follow_is_running
         [of sample_status p loaded "''http://backend''" "Inr []" "Inr sample_status"]
       buttons_follow_is_running
         [of sample_status p idle "''http://backend''" "Inr []" "Inr sample_status"]
       running stopped p
  show ?thesis by (simp add: sample_status_def get_def)
qed

section \<open>Timers\<close>

lemma timers_fetchAlerts_settled:
  "timers (fetchAlerts_settled r d) = timers d" "next_timer (fetchAlerts_settled r d) = next_timer d"
  by (simp_all add: fetchAlerts_settled_def split: sum.splits)

lemma timers_fetchStatus_settled:
  "timers (fetchStatus_settled r d) = timers d" "next_timer (fetchStatus_settled r d) = next_timer d"
  by (simp_all add: fetchStatus_settled_def split: sum.splits)

lemma timers_axios:
  "timers (axios q d) = timers d" "next_timer (axios q d) = next_timer d"
  by (simp_all add: axios_def)

lemma timers_fetch:
  "timers (fetchAlerts B ra d) = timers d" "next_timer (fetchAlerts B ra d) = next_timer d"
  "timers (fetchStatus B rs d) = timers d" "next_timer (fetchStatus B rs d) = next_timer d"
  by (simp_all add: fetchAlerts_def fetchStatus_def timers_fetchAlerts_settled
      timers_fetchStatus_settled timers_axios)

lemma timers_commands:
  "timers (startMonitoring B r rs d) = timers d" "next_timer (startMonitoring B r rs d) = next_timer d"
  "timers (stopMonitoring B r rs d) = timers d" "next_timer (stopMonitoring B r rs d) = next_timer d"
  "timers (clearAlerts B c r ra rs d) = timers d" "next_timer (clearAlerts B c r ra rs d) = next_timer d"
  by (simp_all add: startMonitoring_def stopMonitoring_def clearAlerts_def Let_def
      timers_fetch timers_axios split: sum.splits)

lemma timers_setTimeout:
  "timers (setTimeout cb ms d) =
     timers d @ [\<lparr>timer_id = next_timer d, timer_ms = ms, repeating = False, callback = cb\<rparr>]"
  "next_timer (setTimeout cb ms d) = Suc (next_timer d)"
  by (simp_all add: setTimeout_def add_timer_def)

lemma timers_mock:
  "timers (generateMockAlert B r ra rs d) =
     timers d @ [\<lparr>timer_id = next_timer d, timer_ms = 4000, repeating = False, callback = HideNotification\<rparr>]"
  "next_timer (generateMockAlert B r ra rs d) = Suc (next_timer d)"
  by (simp_all add: generateMockAlert_def mock_failed_def timers_setTimeout Let_def
      timers_fetch timers_axios split: sum.splits option.splits)

lemma timers_run_callback:
  "timers (run_callback B cb d) = timers d" "next_timer (run_callback B cb d) = next_timer d"
  by (simp_all add: run_callback_def poll_tick_def timers_axios split: callback.splits)

lemmas timers_kept =
  timers_fetchAlerts_settled timers_fetchStatus_settled timers_fetch timers_commands
  timers_run_callback

lemma polling_timeout:
  assumes "polling d"
  shows "polling (d\<lparr>timers := timers d @ [\<lparr>timer_id = next_timer d, timer_ms = ms, repeating = False, callback = cb\<rparr>],
                   next_timer := Suc (next_timer d)\<rparr>)"
  using assms by (auto simp add: polling_def fresh_ids_def list_all_iff intro: less_SucI)

lemma polling_cong:
  "polling d \<Longrightarrow> timers d' = timers d \<Longrightarrow> next_timer d' = next_timer d \<Longrightarrow> polling d'"
  by (simp add: polling_def fresh_ids_def)

lemma polling_mock: "polling d \<Longrightarrow> polling (generateMockAlert B r ra rs d)"
  using polling_timeout [of d 4000 HideNotification]
  by (simp add: polling_def fresh_ids_def timers_mock)

lemma find_timer: "find (\<lambda>t. timer_id t = i) ts = Some t \<Longrightarrow> t \<in> set ts \<and> timer_id t = i"
  by (induction ts) (auto split: if_splits)

lemma polling_remove:
  assumes p: "polling d" and f: "find (\<lambda>t. timer_id t = i) (timers d) = Some t" and n: "\<not> repeating t"
  shows "polling (d\<lparr>timers := filter (\<lambda>t. timer_id t \<noteq> i) (timers d)\<rparr>)"
proof -
  from f have t: "t \<in> set (timers d)" "timer_id t = i" using find_timer by blast+
  from p have "poll_timer \<in> set (filter repeating (timers d))" by (simp add: polling_def)
  then have pin: "poll_timer \<in> set (timers d)" by simp
  from n have "t \<noteq> poll_timer" by (auto simp add: poll_timer_def)
  with p t pin have "timer_id poll_timer \<noteq> i"
    by (metis distinct_map inj_onD polling_def)
  have "filter repeating (filter (\<lambda>t. timer_id t \<noteq> i) (timers d)) =
        filter (\<lambda>t. timer_id t \<noteq> i) (filter repeating (timers d))"
    by (induction "timers d") (auto simp add: filter_filter conj_commute)
  with p \<open>timer_id poll_timer \<noteq> i\<close> show ?thesis
    by (auto simp add: polling_def fresh_ids_def list_all_iff distinct_map_filter)
qed

lemma polling_fires: "polling d \<Longrightarrow> polling (timer_fires B i d)"
  by (auto simp add: timer_fires_def timers_kept split: option.splits
      intro: polling_cong [OF polling_remove] polling_cong)

lemma polling_step: "polling d \<Longrightarrow> polling (step B e d)"
proof (cases e)
  case (ClickGenerate r ra rs)
  assume "polling d"
  then show ?thesis using ClickGenerate
    by (auto simp add: on_page_def polling_mock split: sum.splits view.splits)
next
  case (TimerFires i)
  assume "polling d"
  then show ?thesis using TimerFires by (simp add: polling_fires)
qed (auto simp add: on_page_def loadData_end_def timers_kept
      split: sum.splits view.splits if_splits elim: polling_cong)

lemma polling_run: "polling d \<Longrightarrow> polling (run B es d)"
  unfolding run_def by (induction es arbitrary: d) (simp_all add: polling_step)

lemma polling_mount: "polling (snd (mount B initial))"
  by (simp add: polling_def mount_def setInterval_def add_timer_def loadData_begin_def
      fresh_ids_def initial_def poll_timer_def axios_def)

lemma find_poll:
  assumes p: "polling d"
  shows "find (\<lambda>t. timer_id t = 0) (timers d) = Some poll_timer"
proof -
  from p have "poll_timer \<in> set (filter repeating (timers d))" by (simp add: polling_def)
  then have pin: "poll_timer \<in> set (timers d)" by simp
  have id0: "timer_id poll_timer = 0" by (simp add: poll_timer_def)
  with pin obtain t where f: "find (\<lambda>t. timer_id t = 0) (timers d) = Some t"
    by (cases "find (\<lambda>t. timer_id t = 0) (timers d)") (auto simp add: find_None_iff)
  then have "t \<in> set (timers d)" "timer_id t = 0" using find_timer by blast+
  with p pin id0 have "t = poll_timer"
    by (metis distinct_map inj_onD polling_def)
  with f show ?thesis by simp
qed

lemma poll_fires:
  "polling d \<Longrightarrow>
   timer_fires B 0 d = d\<lparr>sent := sent d @ [(GET, API B @ ''/alerts''), (GET, API B @ ''/status'')]\<rparr>"
  by (simp add: timer_fires_def find_poll poll_timer_def run_callback_def poll_tick_def axios_def)

lemma find_cleared: "find (\<lambda>t. timer_id t = i) (filter (\<lambda>t. timer_id t \<noteq> i) ts) = None"
  by (simp add: find_None_iff)

lemma unmount_clears:
  assumes p: "polling d"
  shows "filter repeating (timers (unmount 0 d)) = []"
proof -
  have "filter repeating (filter (\<lambda>t. timer_id t \<noteq> 0) (timers d)) =
        filter (\<lambda>t. timer_id t \<noteq> 0) (filter repeating (timers d))"
    by (induction "timers d") (auto simp add: filter_filter conj_commute)
  with p show ?thesis
    by (simp add: unmount_def clearInterval_def polling_def poll_timer_def)
qed

lemma unmounted_silent: "timer_fires B i (unmount i d) = unmount i d"
  by (simp add: timer_fires_def unmount_def clearInterval_def find_cleared)

text \<open>
  C2. Mounting the component registers one interval, of 15000 ms, whose callback is the
  polling callback. Whatever happens to the mounted component afterwards, that interval
  stays the only registered interval, and each time it fires exactly \<open>GET /alerts\<close> and
  \<open>GET /status\<close> are sent and nothing else changes. The cleanup of the effect clears the
  interval: no interval is left, and a tick after it sends nothing.
\<close>

theorem polls_every_15_seconds:
  "fst (mount B initial) = 0
   \<and> timers (snd (mount B initial)) =
       [\<lparr>timer_id = 0, timer_ms = 15000, repeating = True, callback = PollTick\<rparr>]
   \<and> filter repeating (timers (run B es (snd (mount B initial)))) =
       [\<lparr>timer_id = 0, timer_ms = 15000, repeating = True, callback = PollTick\<rparr>]
   \<and> timer_fires B 0 (run B es (snd (mount B initial))) =
       (run B es (snd (mount B initial)))
         \<lparr>sent := sent (run B es (snd (mount B initial))) @
                    [(GET, API B @ ''/alerts''), (GET, API B @ ''/status'')]\<rparr>
   \<and> filter repeating (timers (unmount 0 (run B es (snd (mount B initial))))) = []
   \<and> timer_fires B 0 (unmount 0 (run B es (snd (mount B initial)))) =
       unmount 0 (run B es (snd (mount B initial)))"
proof -
  have m: "polling (snd (mount B initial))" by (rule polling_mount)
  then have r: "polling (run B es (snd (mount B initial)))" by (rule polling_run)
  have "fst (mount B initial) = 0"
    by (simp add: mount_def setInterval_def add_timer_def loadData_begin_def initial_def axios_def)
  moreover have "timers (snd (mount B initial)) =
       [\<lparr>timer_id = 0, timer_ms = 15000, repeating = True, callback = PollTick\<rparr>]"
    by (simp add: mount_def setInterval_def add_timer_def loadData_begin_def initial_def axios_def)
  moreover from r have "filter repeating (timers (run B es (snd (mount B initial)))) =
       [\<lparr>timer_id = 0, timer_ms = 15000, repeating = True, callback = PollTick\<rparr>]"
    by (simp add: polling_def poll_timer_def)
  ultimately show ?thesis
    using poll_fires [OF r] unmount_clears [OF r] unmounted_silent by simp
qed

section \<open>The status panel\<close>

















section \<open>The alert card\<close>

lemma get_tagged:
  "k \<noteq> ''_id'' \<Longrightarrow> k \<noteq> ''posted_at'' \<Longrightarrow> get tagged_alert k = get sample_alert k"
  by (simp add: tagged_alert_def get_def)

lemma get_quiet: "k \<noteq> ''ai_analysis'' \<Longrightarrow> get quiet_alert k = get sample_alert k"
  by (simp add: quiet_alert_def sample_alert_def get_def)

text \<open>
  C5. The card of an alert is determined by nine properties of the alert: \<open>platform\<close>,
  \<open>author\<close>, \<open>content\<close>, \<open>url\<close>, \<open>timestamp\<close>, \<open>score\<close>, \<open>threat_level\<close>, \<open>reason\<close>
  and \<open>ai_analysis\<close>; with its React key, which is \<open>id\<close>, the list item is determined by
  the ten Alert fields of section 3, so no other property is read. Each of the nine is
  shown in the card, \<open>ai_analysis\<close> when it is truthy.
\<close>

theorem card_reads_alert_fields:
  "(list_all (\<lambda>k. get a k = get b k)
      [''platform'', ''author'', ''content'', ''url'', ''timestamp'', ''score'',
       ''threat_level'', ''reason'', ''ai_analysis''] \<longrightarrow> ThreatAlert a = ThreatAlert b)
   \<and> (list_all (\<lambda>k. get a k = get b k) alert_fields \<longrightarrow>
        (get a ''id'', ThreatAlert a) = (get b ''id'', ThreatAlert b))
   \<and> card_platform (ThreatAlert a) = Val (get a ''platform'')
   \<and> card_author (ThreatAlert a) = [Lit ''@'', Val (get a ''author'')]
   \<and> card_content (ThreatAlert a) = [Lit ''\"'', Val (get a ''content''), Lit ''\"'']
   \<and> card_href (ThreatAlert a) = get a ''url''
   \<and> card_time (ThreatAlert a) = LocaleString (get a ''timestamp'')
   \<and> card_score (ThreatAlert a) = [Lit ''Score: '', Pct1 (get a ''score''), Lit ''%'']
   \<and> card_badge (ThreatAlert a) = Val (get a ''threat_level'')
   \<and> card_reason (ThreatAlert a) = Val (get a ''reason'')
   \<and> (truthy (get a ''ai_analysis'') \<longrightarrow>
        card_ai (ThreatAlert a) = Section (Val (get a ''ai_analysis'')))"
  by (simp add: ThreatAlert_def alert_fields_def formatTime_def js_and_def)

theorem card_reads_alert_fields_witness:
  "list_all (\<lambda>k. get tagged_alert k = get sample_alert k)
     [''platform'', ''author'', ''content'', ''url'', ''timestamp'', ''score'',
      ''threat_level'', ''reason'', ''ai_analysis'']
   \<and> list_all (\<lambda>k. get tagged_alert k = get sample_alert k) alert_fields
   \<and> tagged_alert \<noteq> sample_alert
   \<and> ThreatAlert tagged_alert = ThreatAlert sample_alert
   \<and> (get tagged_alert ''id'', ThreatAlert tagged_alert) = (JStr ''a1'', ThreatAlert sample_alert)
   \<and> truthy (get sample_alert ''ai_analysis'')
   \<and> card_ai (ThreatAlert sample_alert) = Section (Val (JStr ''Direct threat against the VIP''))"
proof -
  have nine: "list_all (\<lambda>k. get tagged_alert k = get sample_alert k)
     [''platform'', ''author'', ''content'', ''url'', ''timestamp'', ''score'',
      ''threat_level'', ''reason'', ''ai_analysis'']"
    by (simp add: get_tagged)
  have ten: "list_all (\<lambda>k. get tagged_alert k = get sample_alert k) alert_fields"
    by (simp add: alert_fields_def get_tagged)
  have id: "get sample_alert ''id'' = JStr ''a1''"
    by (simp add: sample_alert_def get_def)
  have ai: "get sample_alert ''ai_analysis'' = JStr ''Direct threat against the VIP''"
    by (simp add: sample_alert_def get_def)
  have differ: "tagged_alert \<noteq> sample_alert"
    by (simp add: tagged_alert_def)
  from card_reads_alert_fields [of tagged_alert sample_alert]
       card_reads_alert_fields [of sample_alert sample_alert] nine ten id ai differ
  show ?thesis by simp
qed

text \<open>
  C7. The AI Analysis section is rendered exactly when \<open>ai_analysis\<close> is truthy. For an
  \<open>ai_analysis\<close> that is a string, null or missing, that is exactly when it is a non-empty
  string. The other parts of the card do not depend on \<open>ai_analysis\<close>.
\<close>

theorem ai_section_iff_nonempty:
  "card_ai (ThreatAlert a) =
     (if truthy (get a ''ai_analysis'') then Section (Val (get a ''ai_analysis''))
      else Falsy (get a ''ai_analysis''))
   \<and> (get a ''ai_analysis'' = JUndefined \<or> get a ''ai_analysis'' = JNull
        \<or> (\<exists>s. get a ''ai_analysis'' = JStr s) \<longrightarrow>
       ((\<exists>n. card_ai (ThreatAlert a) = Section n) \<longleftrightarrow>
        (\<exists>s. get a ''ai_analysis'' = JStr s \<and> s \<noteq> [])))
   \<and> (list_all (\<lambda>k. get a k = get b k)
        [''platform'', ''author'', ''content'', ''url'', ''timestamp'', ''score'',
         ''threat_level'', ''reason''] \<longrightarrow>
       (ThreatAlert a)\<lparr>card_ai := x\<rparr> = (ThreatAlert b)\<lparr>card_ai := x\<rparr>)"
  by (auto simp add: ThreatAlert_def js_and_def)

theorem ai_section_iff_nonempty_witness:
  "(\<exists>s. get quiet_alert ''ai_analysis'' = JStr s)
   \<and> card_ai (ThreatAlert quiet_alert) = Falsy (JStr [])
   \<and> \<not> (\<exists>n. card_ai (ThreatAlert quiet_alert) = Section n)
   \<and> (\<exists>n. card_ai (ThreatAlert sample_alert) = Section n)
   \<and> list_all (\<lambda>k. get quiet_alert k = get sample_alert k)
        [''platform'', ''author'', ''content'', ''url'', ''timestamp'', ''score'',
         ''threat_level'', ''reason'']
   \<and> (ThreatAlert quiet_alert)\<lparr>card_ai := Falsy JNull\<rparr> =
       (ThreatAlert sample_alert)\<lparr>card_ai := Falsy JNull\<rparr>"
proof -
  have empty: "get quiet_alert ''ai_analysis'' = JStr []"
    by (simp add: quiet_alert_def get_def)
  have full: "get sample_alert ''ai_analysis'' = JStr ''Direct threat against the VIP''"
    by (simp add: sample_alert_def get_def)
  have same: "list_all (\<lambda>k. get quiet_alert k = get sample_alert k)
        [''platform'', ''author'', ''content'', ''url'', ''timestamp'', ''score'',
         ''threat_level'', ''reason'']"
    by (simp add: get_quiet)
  from ai_section_iff_nonempty [of quiet_alert sample_alert "Falsy JNull"]
       ai_section_iff_nonempty [of sample_alert sample_alert "Falsy JNull"] empty full same
  show ?thesis by simp
qed

section \<open>The two alert counts\<close>

lemma count_controller:
  "alerts_count b = length (store b) \<Longrightarrow>
   alerts_count (controller c b) = length (store (controller c b))"
  by (cases c) simp_all

lemma count_serve:
  "alerts_count b = length (store b) \<Longrightarrow> alerts_count (serve cs b) = length (store (serve cs b))"
  unfolding serve_def by (induction cs arbitrary: b) (simp_all add: count_controller)

lemma count_boot: "alerts_count (serve cs (boot ps)) = length (store (serve cs (boot ps)))"
  by (rule count_serve) (simp add: boot_def)

lemma get_alerts_count: "get (GET_status b) ''alerts_count'' = JNum (of_nat (alerts_count b))"
  by (simp add: GET_status_def get_def)

lemma App_counts:
  "App d = Inr (Page p) \<Longrightarrow>
     panel_total_alerts (page_status p) = Val (get (status d) ''alerts_count'')
     \<and> hd (page_count p) = Val (JNum (of_nat (length (alerts d))))"
  by (auto simp add: App_def MonitoringStatus_def split: if_splits sum.splits)

lemma loading_loaded: "\<not> loading loaded"
  by (simp add: loaded_def loadData_end_def)

text \<open>
  C4, as stated, fails: the two counts come from two requests, and the backend may persist
  an alert between them. In the poll below both requests succeed, the backend satisfies its
  invariant at every moment, and the page shows 1 under Total Alerts and 0 in the list
  header.
\<close>

theorem poll_between_writes_counterexample:
  "alerts_count race_after = length (store race_after)
   \<and> sent raced = [(GET, ''http://backend/api/alerts''), (GET, ''http://backend/api/status''),
                    (GET, ''http://backend/api/alerts''), (GET, ''http://backend/api/status'')]
   \<and> error raced = JNull
   \<and> App raced =
     Inr (Page
       \<lparr> page_popup = None, page_banner = Falsy JNull,
         page_status =
           \<lparr> panel_badge = ACTIVE, panel_total_alerts = Val (JNum 1),
             panel_platforms = Val (JNum 3), panel_last_check = Lit ''--:--'',
             start_disabled = True, stop_disabled = False \<rparr>,
         page_count = [Val (JNum 0),
                       Lit ('' alerts '' @ [CHR 0xE2, CHR 0x80, CHR 0xA2] @ '' Updated every 15 seconds'')],
         page_list = NoThreats \<rparr>)"
  by (simp add: raced_def run_def race_boot_def race_before_def race_after_def serve_def boot_def
      GET_alerts_def GET_status_def get_def fetchAlerts_settled_def fetchStatus_settled_def
      loadData_end_def timer_fires_def mount_def setInterval_def add_timer_def loadData_begin_def
      axios_def initial_def run_callback_def poll_tick_def App_def MonitoringStatus_def
      opt_length_def js_or_def js_and_def API_def)

text \<open>
  C4, amended. In every state the backend reaches, \<open>alerts_count\<close> is the number of alerts
  in the store. When \<open>GET /alerts\<close> and \<open>GET /status\<close> both succeed and are answered from
  one and the same backend state, in either order, the two counts on the page agree and are
  that number. After a clear the store is empty and the counter is 0, and when the clear
  and its two fetches succeed and the fetches are answered from that state, both counts on
  the page are 0.
\<close>

theorem counts_agree_on_one_snapshot:
  assumes b: "b = serve cs (boot ps)"
  shows "alerts_count b = length (store b)
   \<and> (App (fetchStatus_settled (Inr (GET_status b)) (fetchAlerts_settled (Inr (GET_alerts b)) d)) =
        Inr (Page p) \<longrightarrow>
        panel_total_alerts (page_status p) = Val (JNum (of_nat (length (store b))))
        \<and> hd (page_count p) = Val (JNum (of_nat (length (store b)))))
   \<and> (App (fetchAlerts_settled (Inr (GET_alerts b)) (fetchStatus_settled (Inr (GET_status b)) d)) =
        Inr (Page q) \<longrightarrow>
        panel_total_alerts (page_status q) = Val (JNum (of_nat (length (store b))))
        \<and> hd (page_count q) = Val (JNum (of_nat (length (store b)))))
   \<and> store (controller Clear b) = [] \<and> alerts_count (controller Clear b) = 0
   \<and> (App (clearAlerts B True (Inr ack) (Inr (GET_alerts (controller Clear b)))
             (Inr (GET_status (controller Clear b))) d) = Inr (Page r) \<longrightarrow>
        panel_total_alerts (page_status r) = Val (JNum 0) \<and> hd (page_count r) = Val (JNum 0))"
proof (intro conjI impI)
  show inv: "alerts_count b = length (store b)"
    unfolding b by (rule count_boot)
  show "panel_total_alerts (page_status p) = Val (JNum (of_nat (length (store b))))"
    if "App (fetchStatus_settled (Inr (GET_status b)) (fetchAlerts_settled (Inr (GET_alerts b)) d)) =
        Inr (Page p)"
    using App_counts [OF that] inv
    by (simp add: fetchStatus_settled_def fetchAlerts_settled_def get_alerts_count)
  show "hd (page_count p) = Val (JNum (of_nat (length (store b))))"
    if "App (fetchStatus_settled (Inr (GET_status b)) (fetchAlerts_settled (Inr (GET_alerts b)) d)) =
        Inr (Page p)"
    using App_counts [OF that]
    by (simp add: fetchStatus_settled_def fetchAlerts_settled_def GET_alerts_def)
  show "panel_total_alerts (page_status q) = Val (JNum (of_nat (length (store b))))"
    if "App (fetchAlerts_settled (Inr (GET_alerts b)) (fetchStatus_settled (Inr (GET_status b)) d)) =
        Inr (Page q)"
    using App_counts [OF that] inv
    by (simp add: fetchStatus_settled_def fetchAlerts_settled_def get_alerts_count)
  show "hd (page_count q) = Val (JNum (of_nat (length (store b))))"
    if "App (fetchAlerts_settled (Inr (GET_alerts b)) (fetchStatus_settled (Inr (GET_status b)) d)) =
        Inr (Page q)"
    using App_counts [OF that]
    by (simp add: fetchStatus_settled_def fetchAlerts_settled_def GET_alerts_def)
  show "store (controller Clear b) = []" by simp
  show "alerts_count (controller Clear b) = 0" by simp
  show "panel_total_alerts (page_status r) = Val (JNum 0)"
    if "App (clearAlerts B True (Inr ack) (Inr (GET_alerts (controller Clear b)))
             (Inr (GET_status (controller Clear b))) d) = Inr (Page r)"
    using App_counts [OF that]
    by (simp add: clearAlerts_def Let_def fetchStatus_ok fetchAlerts_ok get_alerts_count)
  show "hd (page_count r) = Val (JNum 0)"
    if "App (clearAlerts B True (Inr ack) (Inr (GET_alerts (controller Clear b)))
             (Inr (GET_status (controller Clear b))) d) = Inr (Page r)"
    using App_counts [OF that]
    by (simp add: clearAlerts_def Let_def fetchStatus_ok fetchAlerts_ok GET_alerts_def)
qed

theorem counts_agree_on_one_snapshot_witness:
  "race_after = serve [Start, Persist sample_alert] (boot [''Twitter'', ''Facebook'', ''Instagram''])
   \<and> alerts_count race_after = length (store race_after)
   \<and> (\<exists>p. App (fetchStatus_settled (Inr (GET_status race_after))
                 (fetchAlerts_settled (Inr (GET_alerts race_after)) loaded)) = Inr (Page p)
          \<and> panel_total_alerts (page_status p) = Val (JNum 1)
          \<and> hd (page_count p) = Val (JNum 1))
   \<and> (\<exists>q. App (fetchAlerts_settled (Inr (GET_alerts race_after))
                 (fetchStatus_settled (Inr (GET_status race_after)) loaded)) = Inr (Page q)
          \<and> panel_total_alerts (page_status q) = Val (JNum 1)
          \<and> hd (page_count q) = Val (JNum 1))
   \<and> (\<exists>r. App (clearAlerts ''http://backend'' True (Inr [])
                 (Inr (GET_alerts (controller Clear race_after)))
                 (Inr (GET_status (controller Clear race_after))) loaded) = Inr (Page r)
          \<and> panel_total_alerts (page_status r) = Val (JNum 0)
          \<and> hd (page_count r) = Val (JNum 0))"
proof -
  have b: "race_after = serve [Start, Persist sample_alert] (boot [''Twitter'', ''Facebook'', ''Instagram''])"
    by (simp add: race_after_def race_boot_def)
  have n: "length (store race_after) = 1"
    by (simp add: race_after_def race_boot_def serve_def boot_def)
  obtain p where p: "App (fetchStatus_settled (Inr (GET_status race_after))
                 (fetchAlerts_settled (Inr (GET_alerts race_after)) loaded)) = Inr (Page p)"
    using App_page [of "fetchStatus_settled (Inr (GET_status race_after))
                 (fetchAlerts_settled (Inr (GET_alerts race_after)) loaded)"] loading_loaded
    by (auto simp add: fetchStatus_settled_def fetchAlerts_settled_def)
  obtain q where q: "App (fetchAlerts_settled (Inr (GET_alerts race_after))
                 (fetchStatus_settled (Inr (GET_status race_after)) loaded)) = Inr (Page q)"
    using App_page [of "fetchAlerts_settled (Inr (GET_alerts race_after))
                 (fetchStatus_settled (Inr (GET_status race_after)) loaded)"] loading_loaded
    by (auto simp add: fetchStatus_settled_def fetchAlerts_settled_def)
  obtain r where r: "App (clearAlerts ''http://backend'' True (Inr [])
                 (Inr (GET_alerts (controller Clear race_after)))
                 (Inr (GET_status (controller Clear race_after))) loaded) = Inr (Page r)"
    using App_page [of "clearAlerts ''http://backend'' True (Inr [])
                 (Inr (GET_alerts (controller Clear race_after)))
                 (Inr (GET_status (controller Clear race_after))) loaded"] loading_loaded
    by (auto simp add: clearAlerts_def Let_def fetchStatus_ok fetchAlerts_ok axios_def)
  from counts_agree_on_one_snapshot
         [OF b, of loaded p q "''http://backend''" "[]" r] p q r n
  show ?thesis using b by auto
qed

section \<open>The test alert\<close>










end
